theory Spec2Isabelle
  imports Main "HOL-Library.Word"
begin

section \<open>Go values used by the streaming server\<close>

text \<open>
  The streaming server (\<^verbatim>\<open>server/streaming/server.go\<close>) is embedded shallowly.
  A struct that another package declares has here the fields that the server reads
  or writes. A Go string and a Go byte slice are both sequences of bytes; the
  conversion \<^verbatim>\<open>[]byte(s)\<close> is the identity on them.
\<close>

type_synonym bytes = string

text \<open>
  A Go \<^verbatim>\<open>error\<close> value: its message (\<^verbatim>\<open>Error()\<close>) and the error it wraps
  (\<^verbatim>\<open>Unwrap()\<close>), if any. The nil error is \<open>None\<close> of \<open>go_error option\<close>.
\<close>

datatype go_error = GoError (Error: string) (Unwrap: "go_error option")

text \<open>\<^verbatim>\<open>errors.New(msg)\<close> and \<^verbatim>\<open>fmt.Errorf(msg)\<close> with no verb in the format.\<close>

definition errors_New :: "string \<Rightarrow> go_error" where
  "errors_New msg = GoError msg None"

text \<open>
  \<^verbatim>\<open>fmt.Errorf(prefix + "%w", err)\<close>: the result is never nil; it wraps \<open>err\<close>. For a
  nil operand the verb prints \<^verbatim>\<open>%!w(<nil>)\<close> and nothing is wrapped.
\<close>

definition fmt_Errorf_w :: "string \<Rightarrow> go_error option \<Rightarrow> go_error" where
  "fmt_Errorf_w prefix err =
     GoError (prefix @ (case err of None \<Rightarrow> ''%!w(<nil>)'' | Some e \<Rightarrow> Error e)) err"

text \<open>A run-time panic of the Go code, and the outcome of a call that may panic.\<close>

datatype panic = nil_pointer_dereference | index_out_of_range | read_loop_panic

datatype 'a outcome = Returned 'a | Panicked panic

subsection \<open>Certificates and requests\<close>

text \<open>
  Of an \<^verbatim>\<open>x509.Certificate\<close> the server reads the common names of subject and issuer
  and the printed validity bounds.
\<close>

record Certificate =
  Subject_CommonName :: string
  Issuer_CommonName :: string
  NotBefore :: string
  NotAfter :: string

record ConnectionState =
  PeerCertificates :: "Certificate list"
  VerifiedChains :: "Certificate list list"

text \<open>
  An \<^verbatim>\<open>http.Request\<close>: \<open>TLS\<close> is nil on a connection without TLS; \<open>Header\<close> maps a
  canonical header name to its values.
\<close>

record Request =
  TLS :: "ConnectionState option"
  Header :: "string \<rightharpoonup> string list"

text \<open>
  \<^verbatim>\<open>Header.Get(key)\<close>: the first value of the key, the empty string when there is none.
  Both keys the server asks for are in canonical form already.
\<close>

definition Header_Get :: "(string \<rightharpoonup> string list) \<Rightarrow> string \<Rightarrow> string" where
  "Header_Get h key = (case h key of None \<Rightarrow> '''' | Some [] \<Rightarrow> '''' | Some (v # _) \<Rightarrow> v)"

record pem_Block =
  Type :: string
  Bytes :: bytes

datatype TLSPassThrough = RFC9440 | AWSApplicationLoadBalancer

record RequestIdentity =
  DeviceID :: string
  SenderID :: string

datatype ConnectivityEvent = ConnectivityEvent_CONNECTED | ConnectivityEvent_DISCONNECTED

text \<open>A \<^verbatim>\<open>timestamppb.Timestamp\<close>: seconds (int64) and nanoseconds (int32) since the epoch.\<close>

record Timestamp =
  Seconds :: "64 word"
  Nanos :: "32 word"

record VehicleConnectivity =
  Vin :: string
  ConnectionId :: string
  NetworkInterface :: string
  CreatedAt :: Timestamp
  Status :: ConnectivityEvent

record StreamMessage =
  TXID :: bytes
  SenderID_bytes :: bytes
  DeviceID_bytes :: bytes
  DeviceType :: bytes
  MessageTopic :: bytes
  Payload :: bytes
  CreatedAt_unix :: "32 word"

datatype Producer = Producer string

record BinarySerializer =
  ser_RequestIdentity :: "RequestIdentity option"
  ser_DispatchRules :: "string \<rightharpoonup> Producer list"

text \<open>
  Of a \<^verbatim>\<open>telemetry.Record\<close> the server reads the serializer reference, the record type
  and the id of the socket it came from.
\<close>

record Record =
  Serializer :: "BinarySerializer option"
  TxType :: string
  SocketID :: string
  RawBytes :: bytes

subsection \<open>Library functions the server calls\<close>

text \<open>
  The functions of the Go standard library and of other packages that the server calls
  are parameters of the model; each has the shape of its Go signature, a returned
  \<^verbatim>\<open>(value, error)\<close> pair being a sum.
  \<^item> \<open>base64_DecodeString\<close>: \<^verbatim>\<open>base64.StdEncoding.DecodeString\<close>;
  \<^item> \<open>url_QueryUnescape\<close>: \<^verbatim>\<open>url.QueryUnescape\<close>;
  \<^item> \<open>pem_Decode\<close>: the first result of \<^verbatim>\<open>pem.Decode\<close>, nil when no block is found;
  \<^item> \<open>x509_ParseCertificates\<close>: \<^verbatim>\<open>x509.ParseCertificates\<close>;
  \<^item> \<open>clientTypeFromIssuer\<close>, \<open>deviceIDFromSubject\<close>: the externally defined mappings
    used by \<^verbatim>\<open>messages.CreateIdentityFromCert\<close>;
  \<^item> \<open>proto_Marshal\<close>: \<^verbatim>\<open>proto.Marshal\<close> on a \<^verbatim>\<open>VehicleConnectivity\<close>;
  \<^item> \<open>ToBytes\<close>: \<^verbatim>\<open>StreamMessage.ToBytes\<close>;
  \<^item> \<open>NewRecord\<close>: \<^verbatim>\<open>telemetry.NewRecord\<close>.
\<close>

record libs =
  base64_DecodeString :: "string \<Rightarrow> go_error + bytes"
  url_QueryUnescape :: "string \<Rightarrow> go_error + string"
  pem_Decode :: "bytes \<Rightarrow> pem_Block option"
  x509_ParseCertificates :: "bytes \<Rightarrow> go_error + Certificate list"
  clientTypeFromIssuer :: "string \<Rightarrow> go_error + string"
  deviceIDFromSubject :: "string \<Rightarrow> go_error + string"
  proto_Marshal :: "VehicleConnectivity \<Rightarrow> go_error + bytes"
  ToBytes :: "StreamMessage \<Rightarrow> go_error + bytes"
  NewRecord :: "BinarySerializer \<Rightarrow> bytes \<Rightarrow> string \<Rightarrow> bool \<Rightarrow> go_error + Record"

section \<open>Identity extraction\<close>

text \<open>
  The three certificate sources return the Go pair \<^verbatim>\<open>(*x509.Certificate, error)\<close>, each
  component possibly nil, or panic.
\<close>

type_synonym cert_result = "(Certificate option \<times> go_error option) outcome"

definition extractCertRFC2440 :: "libs \<Rightarrow> Request \<Rightarrow> cert_result" where
  "extractCertRFC2440 L r =
     (let raw = Header_Get (Header r) ''Client-Cert-Chain'' in
      if raw = '''' then Returned (None, Some (errors_New ''missing_certificate_error''))
      else case base64_DecodeString L raw of
        Inl err \<Rightarrow> Returned (None, Some (fmt_Errorf_w ''failed to parse certificates: '' (Some err)))
      | Inr rest \<Rightarrow>
          (case pem_Decode L rest of
             None \<Rightarrow> Returned (None, Some (fmt_Errorf_w ''failed to parse certificates: '' None))
           | Some block \<Rightarrow>
               (case x509_ParseCertificates L (Bytes block) of
                  Inl err \<Rightarrow>
                    Returned (None, Some (fmt_Errorf_w ''failed to parse certificates: '' (Some err)))
                | Inr certs \<Rightarrow>
                    (case certs of
                       [] \<Rightarrow> Panicked index_out_of_range
                     | c # _ \<Rightarrow> Returned (Some c, None)))))"

definition extractCertAWSALB :: "libs \<Rightarrow> Request \<Rightarrow> cert_result" where
  "extractCertAWSALB L r =
     (let raw = Header_Get (Header r) ''X-Amzn-Mtls-Clientcert'' in
      if raw = '''' then Returned (None, Some (errors_New ''missing_certificate_error''))
      else case url_QueryUnescape L raw of
        Inl err \<Rightarrow> Returned (None, Some (fmt_Errorf_w ''failed to parse certificates: '' (Some err)))
      | Inr rest \<Rightarrow>
          (case pem_Decode L rest of
             None \<Rightarrow> Returned (None, Some (fmt_Errorf_w ''failed to parse certificates: '' None))
           | Some block \<Rightarrow>
               (case x509_ParseCertificates L (Bytes block) of
                  Inl err \<Rightarrow>
                    Returned (None, Some (fmt_Errorf_w ''failed to parse certificates: '' (Some err)))
                | Inr certs \<Rightarrow>
                    (case certs of
                       [] \<Rightarrow> Panicked index_out_of_range
                     | c # _ \<Rightarrow> Returned (Some c, None)))))"

definition extractCertFromTLS :: "Request \<Rightarrow> cert_result" where
  "extractCertFromTLS r =
     (case TLS r of
        None \<Rightarrow> Panicked nil_pointer_dereference
      | Some tls \<Rightarrow>
          (let nbCerts = length (PeerCertificates tls) in
           if nbCerts = 0 then Returned (None, Some (errors_New ''missing_certificate_error''))
           else Returned (Some (PeerCertificates tls ! (nbCerts - 1)), None)))"

fun headerExtractConfigMap :: "libs \<Rightarrow> TLSPassThrough \<Rightarrow> Request \<Rightarrow> cert_result" where
  "headerExtractConfigMap L RFC9440 = extractCertRFC2440 L"
| "headerExtractConfigMap L AWSApplicationLoadBalancer = extractCertAWSALB L"

text \<open>
  Modelled from the spec: \<^verbatim>\<open>messages.CreateIdentityFromCert\<close> is not among the sources.
  The spec says: compute the client type from the issuer common name (mapping
  externally defined) and the device id from the subject common name.
\<close>

definition CreateIdentityFromCert :: "libs \<Rightarrow> Certificate \<Rightarrow> go_error + (string \<times> string)" where
  "CreateIdentityFromCert L cert =
     (case clientTypeFromIssuer L (Issuer_CommonName cert) of
        Inl err \<Rightarrow> Inl err
      | Inr clientType \<Rightarrow>
          (case deviceIDFromSubject L (Subject_CommonName cert) of
             Inl err \<Rightarrow> Inl err
           | Inr deviceID \<Rightarrow> Inr (clientType, deviceID)))"

text \<open>
  The configuration: of \<^verbatim>\<open>config.Config\<close> identity extraction reads the pass-through
  mode only, nil for direct TLS.
\<close>

record Config =
  TLSPassThrough :: "TLSPassThrough option"

type_synonym identity_result = "(RequestIdentity option \<times> go_error option) outcome"

definition extractIdentity :: "libs \<Rightarrow> Request \<Rightarrow> Config \<Rightarrow> identity_result" where
  "extractIdentity L r config =
     (case (case TLSPassThrough config of
              Some mode \<Rightarrow> headerExtractConfigMap L mode r
            | None \<Rightarrow> extractCertFromTLS r) of
        Panicked p \<Rightarrow> Panicked p
      | Returned (cert, err) \<Rightarrow>
          (case err of
             Some e \<Rightarrow> Returned (None, Some e)
           | None \<Rightarrow>
               (case cert of
                  None \<Rightarrow> Panicked nil_pointer_dereference
                | Some c \<Rightarrow>
                    (case CreateIdentityFromCert L c of
                       Inl e \<Rightarrow>
                         Returned (None, Some (GoError
                           (''create_identity issuer: '' @ Issuer_CommonName c @
                            '', common_name: '' @ Subject_CommonName c @
                            '', err: '' @ Error e) None))
                     | Inr (clientType, deviceID) \<Rightarrow>
                         Returned (Some \<lparr>DeviceID = deviceID,
                                         SenderID = clientType @ ''.'' @ deviceID\<rparr>, None)))))"

section \<open>The server\<close>

text \<open>
  Of a \<^verbatim>\<open>SocketManager\<close> the server reads the UUID, the identity (a pointer, nil when
  identity extraction failed), the network interface and the flag passed on to
  \<^verbatim>\<open>telemetry.NewRecord\<close>.
\<close>

record SocketManager =
  UUID :: string
  requestIdentity :: "RequestIdentity option"
  sm_networkInterface :: string
  transmitDecodedRecords :: bool

record Server =
  DispatchRules :: "string \<rightharpoonup> Producer list"
  reliableAckSources :: "string \<rightharpoonup> string"

datatype websocket_Conn = websocket_Conn

text \<open>
  The result of \<^verbatim>\<open>upgrader.Upgrade\<close>: a connection, or an error (the upgrader has then
  replied to the client with an HTTP error) with the fact whether it is a
  \<^verbatim>\<open>websocket.HandshakeError\<close>.
\<close>

datatype upgrade_result = Upgraded websocket_Conn | UpgradeFailed go_error bool

datatype log_value = LStr string | LInt int | LEvent ConnectivityEvent

text \<open>
  What the server does to its collaborators is recorded, call by call, in a trace:
  the logger, the error reporter, the upgrader, the registry, the producers, the
  counters, the socket's reply method and the socket's read loop.
\<close>

datatype event =
    EvLog string "(string \<times> log_value) list"
  | EvErrorLog string go_error "(string \<times> log_value) list"
  | EvReportError go_error
  | EvUpgrade upgrade_result
  | EvRegisterSocket string
  | EvDeregisterSocket string
  | EvProduce Producer Record
  | EvCounterInc string "(string \<times> string) list"
  | EvRespondToVehicle string Record "go_error option"
  | EvProcessTelemetry string

record world =
  registry :: "string \<rightharpoonup> SocketManager"
  trace :: "event list"

definition emit :: "event list \<Rightarrow> world \<Rightarrow> world" where
  "emit evs w = w\<lparr>trace := trace w @ evs\<rparr>"

text \<open>What a trace hands to producers, in order.\<close>

fun produced :: "event list \<Rightarrow> (Producer \<times> Record) list" where
  "produced [] = []"
| "produced (EvProduce p rcd # evs) = (p, rcd) # produced evs"
| "produced (_ # evs) = produced evs"

text \<open>
  The \<^verbatim>\<open>SocketRegistry\<close> is not among the sources. The spec says: a mapping from UUID
  to Socket Manager with insert, delete and lookup; entries live from register to
  deregister, and a lookup after deregister returns absent. Each call on it is
  recorded in the trace.
\<close>

text \<open>
  Modelled from the spec: \<^verbatim>\<open>SocketRegistry.RegisterSocket\<close>, the insert under the UUID of
  the Socket Manager.
\<close>

definition RegisterSocket :: "SocketManager \<Rightarrow> world \<Rightarrow> world" where
  "RegisterSocket sm w =
     emit [EvRegisterSocket (UUID sm)] (w\<lparr>registry := (registry w)(UUID sm \<mapsto> sm)\<rparr>)"

text \<open>
  Modelled from the spec: \<^verbatim>\<open>SocketRegistry.DeregisterSocket\<close>, the delete of the UUID of
  the Socket Manager.
\<close>

definition DeregisterSocket :: "SocketManager \<Rightarrow> world \<Rightarrow> world" where
  "DeregisterSocket sm w =
     emit [EvDeregisterSocket (UUID sm)] (w\<lparr>registry := (registry w)(UUID sm := None)\<rparr>)"

text \<open>
  Modelled from the spec: \<^verbatim>\<open>SocketRegistry.GetSocket\<close>, the lookup of a UUID, absent (nil)
  when the registry has no entry.
\<close>

definition GetSocket :: "world \<Rightarrow> string \<Rightarrow> SocketManager option" where
  "GetSocket w uuid = registry w uuid"

text \<open>
  Modelled from the spec: \<^verbatim>\<open>SocketManager.GetNetworkInterface\<close> is not among the sources.
  The spec says: a best-effort label of the network path the peer is using.
\<close>

definition GetNetworkInterface :: "SocketManager \<Rightarrow> string" where
  "GetNetworkInterface sm = sm_networkInterface sm"

text \<open>
  What the environment contributes to one invocation of the handler: the result of
  the upgrade, the UUID the new Socket Manager generates, its network interface and
  flag, the clock at the two connectivity dispatches, and how the read loop
  \<^verbatim>\<open>ProcessTelemetry\<close> ends (it returns or it panics).
\<close>

record handler_env =
  upgrade :: upgrade_result
  new_UUID :: string
  network_interface :: string
  transmit_decoded :: bool
  now_register :: Timestamp
  now_deregister :: Timestamp
  read_loop :: "unit outcome"

text \<open>
  Modelled from the spec: \<^verbatim>\<open>NewSocketManager\<close> is not among the sources. The spec says:
  the Socket Manager owns its freshly generated UUID and its identity. The identity
  is stored as it is given, nil included.
\<close>

definition NewSocketManager :: "handler_env \<Rightarrow> RequestIdentity option \<Rightarrow> SocketManager" where
  "NewSocketManager env ident =
     \<lparr>UUID = new_UUID env, requestIdentity = ident,
      sm_networkInterface = network_interface env,
      transmitDecodedRecords = transmit_decoded env\<rparr>"

text \<open>
  Modelled from the spec: \<^verbatim>\<open>telemetry.NewBinarySerializer\<close> is not among the sources. The
  spec says: the serializer is parameterized by the identity and the dispatch rules.
\<close>

definition NewBinarySerializer ::
  "RequestIdentity option \<Rightarrow> (string \<rightharpoonup> Producer list) \<Rightarrow> BinarySerializer" where
  "NewBinarySerializer ident rules = \<lparr>ser_RequestIdentity = ident, ser_DispatchRules = rules\<rparr>"

definition connectitivityTopic :: string where
  "connectitivityTopic = ''connectivity''"

text \<open>The counters, by the names \<^verbatim>\<open>registerServerMetrics\<close> registers them under.\<close>

definition reliableAckCount :: string where
  "reliableAckCount = ''reliable_ack''"

definition reliableAckMissCount :: string where
  "reliableAckMissCount = ''reliable_ack_miss''"

subsection \<open>The ack router\<close>

text \<open>
  \<^verbatim>\<open>handleAcks\<close> ranges over the ack channel and ends when the channel is closed; the
  list is what the channel delivers until then.
\<close>

fun handleAcks :: "Server \<Rightarrow> Record list \<Rightarrow> world \<Rightarrow> world" where
  "handleAcks s [] w = w"
| "handleAcks s (record # ackChan) w =
     (let reliableAckSource =
            (case reliableAckSources s (TxType record) of None \<Rightarrow> '''' | Some d \<Rightarrow> d)
      in handleAcks s ackChan
           (if Serializer record \<noteq> None then
              (case GetSocket w (SocketID record) of
                 Some socket \<Rightarrow>
                   emit [EvCounterInc reliableAckCount
                           [(''record_type'', TxType record), (''dispatcher'', reliableAckSource)],
                         EvRespondToVehicle (UUID socket) record None] w
               | None \<Rightarrow>
                   emit [EvCounterInc reliableAckMissCount
                           [(''record_type'', TxType record), (''dispatcher'', reliableAckSource)]] w)
            else w))"

subsection \<open>Connectivity events\<close>

text \<open>
  Building the record of a connectivity event, the middle of
  \<^verbatim>\<open>dispatchConnectivityEvent\<close>: the \<^verbatim>\<open>VehicleConnectivity\<close> message is serialized, wrapped
  in a \<^verbatim>\<open>StreamMessage\<close>, and handed to \<^verbatim>\<open>telemetry.NewRecord\<close>; the first error ends it.
  \<open>now\<close> is what \<^verbatim>\<open>timestamppb.Now()\<close> returns; its nanoseconds are below one second, so
  \<^verbatim>\<open>AsTime().Unix()\<close> is its seconds, which \<^verbatim>\<open>uint32\<close> truncates.
\<close>

definition connectivityRecord ::
  "libs \<Rightarrow> Timestamp \<Rightarrow> SocketManager \<Rightarrow> RequestIdentity \<Rightarrow> BinarySerializer
   \<Rightarrow> ConnectivityEvent \<Rightarrow> go_error + Record" where
  "connectivityRecord L now sm ident serializer event =
     (let connectivityMessage =
            \<lparr>Vin = DeviceID ident, ConnectionId = UUID sm,
             NetworkInterface = GetNetworkInterface sm,
             CreatedAt = now, Status = event\<rparr>
      in case proto_Marshal L connectivityMessage of
           Inl err \<Rightarrow> Inl err
         | Inr payload \<Rightarrow>
             (let streamMessage =
                    \<lparr>TXID = UUID sm, SenderID_bytes = SenderID ident,
                     DeviceID_bytes = DeviceID ident,
                     DeviceType = ''vehicle_device'',
                     MessageTopic = connectitivityTopic,
                     Payload = payload,
                     CreatedAt_unix = ucast (Seconds (CreatedAt connectivityMessage))\<rparr>
              in case ToBytes L streamMessage of
                   Inl err \<Rightarrow> Inl err
                 | Inr message \<Rightarrow>
                     NewRecord L serializer message (UUID sm) (transmitDecodedRecords sm)))"

text \<open>
  \<^verbatim>\<open>dispatchConnectivityEvent\<close>: nothing is done without an entry for the topic; reading
  \<^verbatim>\<open>sm.requestIdentity.DeviceID\<close> panics when the Socket Manager has no identity.
\<close>

definition dispatchConnectivityEvent ::
  "libs \<Rightarrow> Server \<Rightarrow> Timestamp \<Rightarrow> SocketManager \<Rightarrow> BinarySerializer \<Rightarrow> ConnectivityEvent
   \<Rightarrow> world \<Rightarrow> go_error option outcome \<times> world" where
  "dispatchConnectivityEvent L s now sm serializer event w =
     (case DispatchRules s connectitivityTopic of
        None \<Rightarrow> (Returned None, w)
      | Some connectivityDispatcher \<Rightarrow>
          (case requestIdentity sm of
             None \<Rightarrow> (Panicked nil_pointer_dereference, w)
           | Some ident \<Rightarrow>
               (case connectivityRecord L now sm ident serializer event of
                  Inl err \<Rightarrow> (Returned (Some err), w)
                | Inr record \<Rightarrow>
                    (Returned None,
                     emit (map (\<lambda>dispatcher. EvProduce dispatcher record)
                             connectivityDispatcher) w))))"

text \<open>
  Logging a dispatch error reads \<^verbatim>\<open>sm.requestIdentity.DeviceID\<close>, a nil dereference
  when the Socket Manager has no identity.
\<close>

definition log_connectivity_error ::
  "string \<Rightarrow> go_error \<Rightarrow> SocketManager \<Rightarrow> ConnectivityEvent \<Rightarrow> world \<Rightarrow> unit outcome \<times> world" where
  "log_connectivity_error msg err sm event w =
     (case requestIdentity sm of
        None \<Rightarrow> (Panicked nil_pointer_dereference, w)
      | Some ident \<Rightarrow>
          (Returned (),
           emit [EvErrorLog msg err [(''deviceID'', LStr (DeviceID ident)), (''event'', LEvent event)]] w))"

definition registerSocket ::
  "libs \<Rightarrow> Server \<Rightarrow> Timestamp \<Rightarrow> SocketManager \<Rightarrow> BinarySerializer \<Rightarrow> world
   \<Rightarrow> unit outcome \<times> world" where
  "registerSocket L s now sm serializer w =
     (let w1 = RegisterSocket sm w;
          event = ConnectivityEvent_CONNECTED
      in case dispatchConnectivityEvent L s now sm serializer event w1 of
           (Panicked p, w2) \<Rightarrow> (Panicked p, w2)
         | (Returned None, w2) \<Rightarrow> (Returned (), w2)
         | (Returned (Some err), w2) \<Rightarrow>
             log_connectivity_error ''connectivity_registeration_error'' err sm event w2)"

definition deregisterSocket ::
  "libs \<Rightarrow> Server \<Rightarrow> Timestamp \<Rightarrow> SocketManager \<Rightarrow> BinarySerializer \<Rightarrow> world
   \<Rightarrow> unit outcome \<times> world" where
  "deregisterSocket L s now sm serializer w =
     (let w1 = DeregisterSocket sm w;
          event = ConnectivityEvent_DISCONNECTED
      in case dispatchConnectivityEvent L s now sm serializer event w1 of
           (Panicked p, w2) \<Rightarrow> (Panicked p, w2)
         | (Returned None, w2) \<Rightarrow> (Returned (), w2)
         | (Returned (Some err), w2) \<Rightarrow>
             log_connectivity_error ''connectivity_deregisteration_error'' err sm event w2)"

subsection \<open>The handler\<close>

definition promoteToWebsocket :: "handler_env \<Rightarrow> world \<Rightarrow> websocket_Conn option \<times> world" where
  "promoteToWebsocket env w =
     (let w1 = emit [EvUpgrade (upgrade env)] w
      in case upgrade env of
           Upgraded ws \<Rightarrow> (Some ws, w1)
         | UpgradeFailed err isHandshakeError \<Rightarrow>
             (None,
              emit (if \<not> isHandshakeError then [EvErrorLog ''websocket_promotion_error'' err []]
                    else [])
                (emit [EvReportError err] w1)))"

text \<open>\<^verbatim>\<open>strings.Join\<close>.\<close>

fun strings_Join :: "string list \<Rightarrow> string \<Rightarrow> string" where
  "strings_Join [] sep = ''''"
| "strings_Join [x] sep = x"
| "strings_Join (x # y # xs) sep = x @ sep @ strings_Join (y # xs) sep"

text \<open>The log lines at the head of the handler, about the client certificates.\<close>

definition log_client_certificates :: "Request \<Rightarrow> event list" where
  "log_client_certificates r =
     (case TLS r of
        None \<Rightarrow> [EvLog ''client_certificate_not_found'' []]
      | Some tls \<Rightarrow>
          (case PeerCertificates tls of
             [] \<Rightarrow> [EvLog ''client_certificate_not_found'' []]
           | clientCert # _ \<Rightarrow>
               (let chains = VerifiedChains tls in
                [EvLog ''client_certificate''
                   [(''Subject'', LStr (Subject_CommonName clientCert)),
                    (''Issuer'', LStr (Issuer_CommonName clientCert)),
                    (''NotBefore'', LStr (NotBefore clientCert)),
                    (''NotAfter'', LStr (NotAfter clientCert))],
                 EvLog ''chains_size'' [(''chains_size'', LInt (int (length chains)))]] @
                map (\<lambda>(idx, chain).
                       EvLog ''chain_subject_common_name''
                         [(''idx'', LInt (int idx)),
                          (''common_name_chain'',
                           LStr (strings_Join (map Subject_CommonName chain) ''|''))])
                  (enumerate 0 chains))))"

text \<open>
  The handler. The deferred \<^verbatim>\<open>deregisterSocket\<close> is installed once \<^verbatim>\<open>registerSocket\<close>
  has returned; it then runs when the read loop returns and when it panics, and a
  panic of the read loop goes on after it.
\<close>

definition ServeBinaryWs ::
  "libs \<Rightarrow> Server \<Rightarrow> Config \<Rightarrow> handler_env \<Rightarrow> Request \<Rightarrow> world \<Rightarrow> unit outcome \<times> world" where
  "ServeBinaryWs L s config env r w =
     (case promoteToWebsocket env (emit (log_client_certificates r) w) of
        (None, w1) \<Rightarrow> (Returned (), w1)
      | (Some ws, w1) \<Rightarrow>
          (case extractIdentity L r config of
             Panicked p \<Rightarrow> (Panicked p, w1)
           | Returned (ident, err) \<Rightarrow>
               (let w2 = (case err of
                            Some e \<Rightarrow> emit [EvErrorLog ''extract_sender_id_err'' e []] w1
                          | None \<Rightarrow> w1);
                    binarySerializer = NewBinarySerializer ident (DispatchRules s);
                    socketManager = NewSocketManager env ident
                in case registerSocket L s (now_register env) socketManager binarySerializer w2 of
                     (Panicked p, w3) \<Rightarrow> (Panicked p, w3)
                   | (Returned u, w3) \<Rightarrow>
                       (let w4 = emit [EvProcessTelemetry (UUID socketManager)] w3
                        in case deregisterSocket L s (now_deregister env) socketManager
                                  binarySerializer w4 of
                             (Panicked p, w5) \<Rightarrow> (Panicked p, w5)
                           | (Returned u', w5) \<Rightarrow> (read_loop env, w5)))))"

section \<open>Concrete inputs\<close>

text \<open>
  Two certificates, a peer chain, and the headers of pass-through requests. The PEM
  block of \<open>pem_empty_body\<close> has nothing between its BEGIN and END lines.
\<close>

definition cert_ca :: Certificate where
  "cert_ca = \<lparr>Subject_CommonName = ''Issuing CA'', Issuer_CommonName = ''Root CA'',
     NotBefore = ''2024-01-01 00:00:00 +0000 UTC'', NotAfter = ''2034-01-01 00:00:00 +0000 UTC''\<rparr>"

definition cert_vin123 :: Certificate where
  "cert_vin123 = \<lparr>Subject_CommonName = ''VIN123'', Issuer_CommonName = ''vehicle_device'',
     NotBefore = ''2024-01-01 00:00:00 +0000 UTC'', NotAfter = ''2025-01-01 00:00:00 +0000 UTC''\<rparr>"

definition pem_empty_body :: bytes where
  "pem_empty_body =
     ''-----BEGIN CERTIFICATE-----'' @ [CHR 0x0A] @ ''-----END CERTIFICATE-----'' @ [CHR 0x0A]"

definition pem_vin123 :: bytes where
  "pem_vin123 =
     ''-----BEGIN CERTIFICATE-----'' @ [CHR 0x0A] @ ''REVSKFZJTjEyMyk='' @ [CHR 0x0A] @
     ''-----END CERTIFICATE-----'' @ [CHR 0x0A]"

text \<open>
  The library functions at the inputs used below; \<open>''DER(VIN123)''\<close> stands for the DER
  encoding of \<open>cert_vin123\<close>. On the empty input \<^verbatim>\<open>x509.ParseCertificates\<close> returns no
  certificate and no error, and \<^verbatim>\<open>pem.Decode\<close> accepts a block with an empty body.
  Serialization is replaced by a readable stand-in.
\<close>

definition example_libs :: libs where
  "example_libs =
     \<lparr>base64_DecodeString = (\<lambda>s.
        if s = ''LS0tLS1CRUdJTiBDRVJUSUZJQ0FURS0tLS0tCi0tLS0tRU5EIENFUlRJRklDQVRFLS0tLS0K''
        then Inr pem_empty_body
        else if s = ''LS0tLS1CRUdJTiBDRVJUSUZJQ0FURS0tLS0tClJFVlNLRlpKVGpFeU15az0KLS0tLS1FTkQgQ0VSVElGSUNBVEUtLS0tLQo='' then Inr pem_vin123
        else Inl (GoError ''illegal base64 data at input byte 0'' None)),
      url_QueryUnescape = (\<lambda>s.
        if s = ''-----BEGIN%20CERTIFICATE-----%0A-----END%20CERTIFICATE-----%0A''
        then Inr pem_empty_body
        else Inl (GoError ''invalid URL escape'' None)),
      pem_Decode = (\<lambda>b.
        if b = pem_empty_body then Some \<lparr>Type = ''CERTIFICATE'', Bytes = ''''\<rparr>
        else if b = pem_vin123 then Some \<lparr>Type = ''CERTIFICATE'', Bytes = ''DER(VIN123)''\<rparr>
        else None),
      x509_ParseCertificates = (\<lambda>der.
        if der = '''' then Inr []
        else if der = ''DER(VIN123)'' then Inr [cert_vin123]
        else Inl (GoError ''x509: malformed certificate'' None)),
      clientTypeFromIssuer = (\<lambda>cn. Inr cn),
      deviceIDFromSubject = (\<lambda>cn. Inr cn),
      proto_Marshal = (\<lambda>m.
        Inr (Vin m @ '','' @ ConnectionId m @ '','' @ NetworkInterface m @ '','' @
             (case Status m of
                ConnectivityEvent_CONNECTED \<Rightarrow> ''CONNECTED''
              | ConnectivityEvent_DISCONNECTED \<Rightarrow> ''DISCONNECTED''))),
      ToBytes = (\<lambda>m. Inr (MessageTopic m @ '':'' @ Payload m)),
      NewRecord = (\<lambda>serializer message socketID transmitDecoded.
        Inr \<lparr>Serializer = Some serializer, TxType = ''connectivity'',
             SocketID = socketID, RawBytes = message\<rparr>)\<rparr>"

definition request_two_certs :: Request where
  "request_two_certs =
     \<lparr>TLS = Some \<lparr>PeerCertificates = [cert_ca, cert_vin123], VerifiedChains = []\<rparr>,
      Header = Map.empty\<rparr>"

definition request_no_cert :: Request where
  "request_no_cert =
     \<lparr>TLS = Some \<lparr>PeerCertificates = [], VerifiedChains = []\<rparr>, Header = Map.empty\<rparr>"

definition request_rfc9440_bad_base64 :: Request where
  "request_rfc9440_bad_base64 =
     \<lparr>TLS = None, Header = [''Client-Cert-Chain'' \<mapsto> [''!!!'']]\<rparr>"

definition request_rfc9440_vin123 :: Request where
  "request_rfc9440_vin123 =
     \<lparr>TLS = None, Header = [''Client-Cert-Chain'' \<mapsto> [''LS0tLS1CRUdJTiBDRVJUSUZJQ0FURS0tLS0tClJFVlNLRlpKVGpFeU15az0KLS0tLS1FTkQgQ0VSVElGSUNBVEUtLS0tLQo='']]\<rparr>"

definition request_rfc9440_empty_pem :: Request where
  "request_rfc9440_empty_pem =
     \<lparr>TLS = None,
      Header = [''Client-Cert-Chain'' \<mapsto>
        [''LS0tLS1CRUdJTiBDRVJUSUZJQ0FURS0tLS0tCi0tLS0tRU5EIENFUlRJRklDQVRFLS0tLS0K'']]\<rparr>"

definition request_alb_empty_pem :: Request where
  "request_alb_empty_pem =
     \<lparr>TLS = None,
      Header = [''X-Amzn-Mtls-Clientcert'' \<mapsto>
        [''-----BEGIN%20CERTIFICATE-----%0A-----END%20CERTIFICATE-----%0A'']]\<rparr>"

definition config_direct :: Config where
  "config_direct = \<lparr>TLSPassThrough = None\<rparr>"

text \<open>Servers with and without dispatch rules for the connectivity topic.\<close>

definition server_connectivity :: Server where
  "server_connectivity =
     \<lparr>DispatchRules = [''V'' \<mapsto> [Producer ''kafka'', Producer ''logger''],
                       ''connectivity'' \<mapsto> [Producer ''logger'']],
      reliableAckSources = [''V'' \<mapsto> ''kafka'']\<rparr>"

definition server_no_connectivity :: Server where
  "server_no_connectivity =
     \<lparr>DispatchRules = [''V'' \<mapsto> [Producer ''kafka'']],
      reliableAckSources = [''V'' \<mapsto> ''kafka'']\<rparr>"

definition env_upgraded :: handler_env where
  "env_upgraded =
     \<lparr>upgrade = Upgraded websocket_Conn, new_UUID = ''uuid-1'',
      network_interface = ''wifi'', transmit_decoded = False,
      now_register = \<lparr>Seconds = 1700000000, Nanos = 0\<rparr>,
      now_deregister = \<lparr>Seconds = 1700000060, Nanos = 0\<rparr>,
      read_loop = Returned ()\<rparr>"

definition world_empty :: world where
  "world_empty = \<lparr>registry = Map.empty, trace = []\<rparr>"

definition identity_vin123 :: RequestIdentity where
  "identity_vin123 = \<lparr>DeviceID = ''VIN123'', SenderID = ''vehicle_device.VIN123''\<rparr>"

definition socket_vin123 :: SocketManager where
  "socket_vin123 =
     \<lparr>UUID = ''uuid-1'', requestIdentity = Some identity_vin123,
      sm_networkInterface = ''wifi'', transmitDecodedRecords = False\<rparr>"

definition serializer_vin123 :: BinarySerializer where
  "serializer_vin123 =
     \<lparr>ser_RequestIdentity = Some identity_vin123, ser_DispatchRules = Map.empty\<rparr>"

definition ack_record :: Record where
  "ack_record =
     \<lparr>Serializer = Some serializer_vin123, TxType = ''V'', SocketID = ''uuid-1'',
      RawBytes = ''frame''\<rparr>"

text \<open>The same environment with a read loop that panics, and with a failed upgrade.\<close>

definition env_loop_panics :: handler_env where
  "env_loop_panics = env_upgraded\<lparr>read_loop := Panicked read_loop_panic\<rparr>"


section \<open>Properties of identity extraction\<close>

text \<open>
  C4. In direct TLS mode (no pass-through configured) the certificate is the last one
  of the peer chain, and identity extraction is the one of the request whose chain is
  that certificate alone; on an empty peer chain the result is the error
  \<^verbatim>\<open>missing_certificate_error\<close> and no certificate.
\<close>

theorem extractCertFromTLS_last:
  assumes "TLS r = Some tls"
  shows "extractCertFromTLS r =
           (if PeerCertificates tls = []
            then Returned (None, Some (errors_New ''missing_certificate_error''))
            else Returned (Some (last (PeerCertificates tls)), None))
       \<and> (TLSPassThrough config = None \<longrightarrow>
            extractIdentity L r config =
              (if PeerCertificates tls = []
               then Returned (None, Some (errors_New ''missing_certificate_error''))
               else extractIdentity L
                      (r\<lparr>TLS := Some (tls\<lparr>PeerCertificates := [last (PeerCertificates tls)]\<rparr>)\<rparr>)
                      config))"
  using assms
  by (simp add: extractCertFromTLS_def extractIdentity_def Let_def last_conv_nth)

theorem extractCertFromTLS_last_witness:
  "TLS request_two_certs =
     Some \<lparr>PeerCertificates = [cert_ca, cert_vin123], VerifiedChains = []\<rparr>
   \<and> extractCertFromTLS request_two_certs = Returned (Some cert_vin123, None)
   \<and> extractCertFromTLS request_no_cert =
       Returned (None, Some (GoError ''missing_certificate_error'' None))"
  using extractCertFromTLS_last
          [of request_two_certs "\<lparr>PeerCertificates = [cert_ca, cert_vin123],
                                   VerifiedChains = []\<rparr>" config_direct example_libs]
        extractCertFromTLS_last
          [of request_no_cert "\<lparr>PeerCertificates = [], VerifiedChains = []\<rparr>"
              config_direct example_libs]
  by (simp add: request_two_certs_def request_no_cert_def errors_New_def)

text \<open>
  C5. In RFC 9440 pass-through mode the certificate source is \<^verbatim>\<open>extractCertRFC2440\<close>:
  without a \<^verbatim>\<open>Client-Cert-Chain\<close> header the result is the error
  \<^verbatim>\<open>missing_certificate_error\<close>; with a header value that base64 decoding rejects, the
  error \<^verbatim>\<open>failed to parse certificates\<close> wrapping the decoder's error; and a certificate
  that is returned is the first one parsed from the PEM block that \<^verbatim>\<open>pem.Decode\<close> finds
  first in the decoded value.
\<close>

theorem extractCertRFC2440_cases:
  "headerExtractConfigMap L RFC9440 r = extractCertRFC2440 L r
   \<and> (Header r ''Client-Cert-Chain'' = None \<longrightarrow>
      extractCertRFC2440 L r = Returned (None, Some (errors_New ''missing_certificate_error'')))
   \<and> (Header_Get (Header r) ''Client-Cert-Chain'' \<noteq> '''' \<and>
        base64_DecodeString L (Header_Get (Header r) ''Client-Cert-Chain'') = Inl err \<longrightarrow>
      extractCertRFC2440 L r =
        Returned (None, Some (fmt_Errorf_w ''failed to parse certificates: '' (Some err))))
   \<and> (extractCertRFC2440 L r = Returned (Some c, e) \<longrightarrow>
        e = None \<and>
        (\<exists>rest block certs.
           base64_DecodeString L (Header_Get (Header r) ''Client-Cert-Chain'') = Inr rest \<and>
           pem_Decode L rest = Some block \<and>
           x509_ParseCertificates L (Bytes block) = Inr certs \<and>
           certs \<noteq> [] \<and> c = hd certs))"
  by (auto simp add: extractCertRFC2440_def Header_Get_def Let_def
      split: sum.splits option.splits list.splits if_splits)

lemma example_rfc9440_vin123:
  "extractCertRFC2440 example_libs request_rfc9440_vin123 = Returned (Some cert_vin123, None)"
  by (simp add: extractCertRFC2440_def Header_Get_def Let_def example_libs_def
      request_rfc9440_vin123_def pem_vin123_def pem_empty_body_def)

theorem extractCertRFC2440_cases_witness:
  "Header request_no_cert ''Client-Cert-Chain'' = None
   \<and> extractCertRFC2440 example_libs request_no_cert =
       Returned (None, Some (GoError ''missing_certificate_error'' None))
   \<and> Header_Get (Header request_rfc9440_bad_base64) ''Client-Cert-Chain'' = ''!!!''
   \<and> base64_DecodeString example_libs ''!!!'' =
       Inl (GoError ''illegal base64 data at input byte 0'' None)
   \<and> extractCertRFC2440 example_libs request_rfc9440_bad_base64 =
       Returned (None, Some (GoError
         ''failed to parse certificates: illegal base64 data at input byte 0''
         (Some (GoError ''illegal base64 data at input byte 0'' None))))
   \<and> extractCertRFC2440 example_libs request_rfc9440_vin123 = Returned (Some cert_vin123, None)
   \<and> (\<exists>rest block certs.
         base64_DecodeString example_libs
           (Header_Get (Header request_rfc9440_vin123) ''Client-Cert-Chain'') = Inr rest \<and>
         pem_Decode example_libs rest = Some block \<and>
         x509_ParseCertificates example_libs (Bytes block) = Inr certs \<and>
         certs \<noteq> [] \<and> cert_vin123 = hd certs)"
  using extractCertRFC2440_cases
          [of example_libs request_no_cert
              "GoError ''illegal base64 data at input byte 0'' None" cert_vin123 None]
        extractCertRFC2440_cases
          [of example_libs request_rfc9440_bad_base64
              "GoError ''illegal base64 data at input byte 0'' None" cert_vin123 None]
        extractCertRFC2440_cases
          [of example_libs request_rfc9440_vin123
              "GoError ''illegal base64 data at input byte 0'' None" cert_vin123 None]
        example_rfc9440_vin123
  by (simp add: request_no_cert_def request_rfc9440_bad_base64_def Header_Get_def
      example_libs_def errors_New_def fmt_Errorf_w_def)

text \<open>
  C8. An identity that is created has the sender id \<open>client_type @ ''.'' @ device_id\<close>,
  the client type coming from the issuer common name and the device id from the
  subject common name of the certificate that the configured source returned.
\<close>

theorem extractIdentity_sender_id:
  assumes "extractIdentity L r config = Returned (Some ident, err)"
  shows "\<exists>cert clientType.
           (case TLSPassThrough config of
              Some mode \<Rightarrow> headerExtractConfigMap L mode r
            | None \<Rightarrow> extractCertFromTLS r) = Returned (Some cert, None) \<and>
           clientTypeFromIssuer L (Issuer_CommonName cert) = Inr clientType \<and>
           deviceIDFromSubject L (Subject_CommonName cert) = Inr (DeviceID ident) \<and>
           SenderID ident = clientType @ ''.'' @ DeviceID ident \<and> err = None"
  using assms
  by (auto simp add: extractIdentity_def CreateIdentityFromCert_def
      split: outcome.splits option.splits sum.splits prod.splits)

lemma example_identity_vin123:
  "extractIdentity example_libs request_two_certs config_direct =
     Returned (Some identity_vin123, None)"
  by (simp add: extractIdentity_def extractCertFromTLS_def CreateIdentityFromCert_def Let_def
      example_libs_def request_two_certs_def config_direct_def cert_vin123_def
      identity_vin123_def)

theorem extractIdentity_sender_id_witness:
  "extractIdentity example_libs request_two_certs config_direct =
     Returned (Some identity_vin123, None)
   \<and> (\<exists>cert clientType.
         extractCertFromTLS request_two_certs = Returned (Some cert, None) \<and>
         clientTypeFromIssuer example_libs (Issuer_CommonName cert) = Inr clientType \<and>
         deviceIDFromSubject example_libs (Subject_CommonName cert) = Inr ''VIN123'' \<and>
         ''vehicle_device.VIN123'' = clientType @ ''.'' @ ''VIN123'')"
  using extractIdentity_sender_id
          [of example_libs request_two_certs config_direct identity_vin123 None]
        example_identity_vin123
  by (simp add: config_direct_def identity_vin123_def)

text \<open>
  Whenever one of the two header sources returns, it does not return a nil certificate
  together with a nil error. The branch of the nil PEM block wraps a nil error and
  still returns an error.
\<close>

lemma extractCert_never_both_nil:
  "extractCertRFC2440 L r \<noteq> Returned (None, None) \<and>
   extractCertAWSALB L r \<noteq> Returned (None, None)"
  by (simp add: extractCertRFC2440_def extractCertAWSALB_def Let_def
      split: sum.splits option.splits list.splits)

lemma extractCert_nil_block:
  assumes "Header_Get (Header r) ''Client-Cert-Chain'' = raw" and "raw \<noteq> ''''"
    and "base64_DecodeString L raw = Inr rest" and "pem_Decode L rest = None"
  shows "extractCertRFC2440 L r =
           Returned (None, Some (GoError ''failed to parse certificates: %!w(<nil>)'' None))"
  using assms by (simp add: extractCertRFC2440_def Let_def fmt_Errorf_w_def)

text \<open>
  C10. The two header sources are not total: a header whose PEM block has an empty
  body decodes to no bytes, \<^verbatim>\<open>x509.ParseCertificates\<close> returns no certificate and no
  error on them, and \<^verbatim>\<open>certs[0]\<close> panics with an index out of range.
\<close>

theorem extractCert_empty_pem_body_panics:
  "extractCertRFC2440 example_libs request_rfc9440_empty_pem = Panicked index_out_of_range \<and>
   extractCertAWSALB example_libs request_alb_empty_pem = Panicked index_out_of_range"
  by (simp add: extractCertRFC2440_def extractCertAWSALB_def Header_Get_def Let_def
      example_libs_def request_rfc9440_empty_pem_def request_alb_empty_pem_def)

section \<open>Properties of the server\<close>

lemma emit_simps [simp]:
  "trace (emit evs w) = trace w @ evs"
  "registry (emit evs w) = registry w"
  by (simp_all add: emit_def)

subsection \<open>The ack router\<close>

lemma handleAcks_append:
  "handleAcks s (xs @ ys) w = handleAcks s ys (handleAcks s xs w)"
  by (induction xs arbitrary: w) (simp_all add: Let_def)

lemma handleAcks_registry: "registry (handleAcks s xs w) = registry w"
  by (induction xs arbitrary: w) (simp_all add: Let_def GetSocket_def split: option.splits)

text \<open>
  C2. Let a record with a serializer arrive on the ack channel, anywhere in the stream,
  and let \<open>labels\<close> be its record type and the dispatcher named for it by the reliable
  ack sources. If the registry holds a socket for the record's socket id, the router
  does exactly this for the record: one increment of \<^verbatim>\<open>reliable_ack\<close> with these labels
  and one call of \<^verbatim>\<open>respondToVehicle\<close> on that socket. If the registry holds none, it
  does one increment of \<^verbatim>\<open>reliable_ack_miss\<close> with the same labels and nothing else.
  Without an entry for the record type the dispatcher label is empty, and the record
  is processed all the same.
\<close>

theorem handleAcks_each_record:
  assumes "Serializer record \<noteq> None"
    and "labels = [(''record_type'', TxType record),
                   (''dispatcher'', (case reliableAckSources s (TxType record) of
                                      None \<Rightarrow> '''' | Some d \<Rightarrow> d))]"
  shows "(\<forall>socket. registry w (SocketID record) = Some socket \<longrightarrow>
            handleAcks s (before @ record # after) w =
              handleAcks s after
                (emit [EvCounterInc ''reliable_ack'' labels,
                       EvRespondToVehicle (UUID socket) record None]
                   (handleAcks s before w)))
       \<and> (registry w (SocketID record) = None \<longrightarrow>
            handleAcks s (before @ record # after) w =
              handleAcks s after
                (emit [EvCounterInc ''reliable_ack_miss'' labels] (handleAcks s before w)))
       \<and> (reliableAckSources s (TxType record) = None \<longrightarrow>
            labels = [(''record_type'', TxType record), (''dispatcher'', '''')])"
  using assms
  by (simp add: handleAcks_append handleAcks_registry GetSocket_def Let_def
      reliableAckCount_def reliableAckMissCount_def)

theorem handleAcks_each_record_witness:
  "Serializer ack_record \<noteq> None
   \<and> registry (world_empty\<lparr>registry := [''uuid-1'' \<mapsto> socket_vin123]\<rparr>) (SocketID ack_record)
       = Some socket_vin123
   \<and> trace (handleAcks server_connectivity [ack_record]
              (world_empty\<lparr>registry := [''uuid-1'' \<mapsto> socket_vin123]\<rparr>)) =
       [EvCounterInc ''reliable_ack'' [(''record_type'', ''V''), (''dispatcher'', ''kafka'')],
        EvRespondToVehicle ''uuid-1'' ack_record None]
   \<and> registry world_empty (SocketID ack_record) = None
   \<and> trace (handleAcks server_connectivity [ack_record] world_empty) =
       [EvCounterInc ''reliable_ack_miss'' [(''record_type'', ''V''), (''dispatcher'', ''kafka'')]]
   \<and> reliableAckSources server_connectivity (TxType (ack_record\<lparr>TxType := ''alerts''\<rparr>)) = None
   \<and> trace (handleAcks server_connectivity [ack_record\<lparr>TxType := ''alerts''\<rparr>] world_empty) =
       [EvCounterInc ''reliable_ack_miss'' [(''record_type'', ''alerts''), (''dispatcher'', '''')]]"
  using handleAcks_each_record
          [of ack_record "[(''record_type'', ''V''), (''dispatcher'', ''kafka'')]"
              server_connectivity "world_empty\<lparr>registry := [''uuid-1'' \<mapsto> socket_vin123]\<rparr>"
              "[]" "[]"]
        handleAcks_each_record
          [of ack_record "[(''record_type'', ''V''), (''dispatcher'', ''kafka'')]"
              server_connectivity world_empty "[]" "[]"]
        handleAcks_each_record
          [of "ack_record\<lparr>TxType := ''alerts''\<rparr>"
              "[(''record_type'', ''alerts''), (''dispatcher'', '''')]"
              server_connectivity world_empty "[]" "[]"]
  by (simp add: ack_record_def server_connectivity_def world_empty_def socket_vin123_def)

subsection \<open>Connectivity events\<close>

lemma dispatch_no_topic:
  "DispatchRules s ''connectivity'' = None \<Longrightarrow>
   dispatchConnectivityEvent L s now sm ser event w = (Returned None, w)"
  by (simp add: dispatchConnectivityEvent_def connectitivityTopic_def)

text \<open>
  C6. Without an entry for the topic \<^verbatim>\<open>connectivity\<close> in the dispatch rules, dispatching
  a connectivity event returns nil and does nothing, and \<^verbatim>\<open>registerSocket\<close> and
  \<^verbatim>\<open>deregisterSocket\<close> return after the registry operation alone: the socket is in the
  registry after the one and absent after the other, and the only call recorded is
  the one on the registry.
\<close>

theorem connectivity_topic_absent:
  assumes "DispatchRules s ''connectivity'' = None"
  shows "dispatchConnectivityEvent L s now sm ser event w = (Returned None, w)
       \<and> registerSocket L s now sm ser w = (Returned (), RegisterSocket sm w)
       \<and> deregisterSocket L s now sm ser w = (Returned (), DeregisterSocket sm w)
       \<and> registry (RegisterSocket sm w) (UUID sm) = Some sm
       \<and> trace (RegisterSocket sm w) = trace w @ [EvRegisterSocket (UUID sm)]
       \<and> registry (DeregisterSocket sm w) (UUID sm) = None
       \<and> trace (DeregisterSocket sm w) = trace w @ [EvDeregisterSocket (UUID sm)]"
  using assms
  by (simp add: dispatch_no_topic registerSocket_def deregisterSocket_def
      RegisterSocket_def DeregisterSocket_def)

theorem connectivity_topic_absent_witness:
  "DispatchRules server_no_connectivity ''connectivity'' = None
   \<and> dispatchConnectivityEvent example_libs server_no_connectivity (now_register env_upgraded)
        socket_vin123 serializer_vin123 ConnectivityEvent_CONNECTED world_empty
       = (Returned None, world_empty)
   \<and> registerSocket example_libs server_no_connectivity (now_register env_upgraded)
        socket_vin123 serializer_vin123 world_empty
       = (Returned (), \<lparr>registry = [''uuid-1'' \<mapsto> socket_vin123],
                        trace = [EvRegisterSocket ''uuid-1'']\<rparr>)
   \<and> deregisterSocket example_libs server_no_connectivity (now_deregister env_upgraded)
        socket_vin123 serializer_vin123
        \<lparr>registry = [''uuid-1'' \<mapsto> socket_vin123], trace = [EvRegisterSocket ''uuid-1'']\<rparr>
       = (Returned (), \<lparr>registry = Map.empty,
                        trace = [EvRegisterSocket ''uuid-1'', EvDeregisterSocket ''uuid-1'']\<rparr>)"
  using connectivity_topic_absent
          [of server_no_connectivity example_libs "now_register env_upgraded" socket_vin123
              serializer_vin123 ConnectivityEvent_CONNECTED world_empty]
        connectivity_topic_absent
          [of server_no_connectivity example_libs "now_deregister env_upgraded" socket_vin123
              serializer_vin123 ConnectivityEvent_DISCONNECTED
              "\<lparr>registry = [''uuid-1'' \<mapsto> socket_vin123],
                trace = [EvRegisterSocket ''uuid-1'']\<rparr>"]
  by (simp add: server_no_connectivity_def world_empty_def RegisterSocket_def
      DeregisterSocket_def emit_def socket_vin123_def)

text \<open>
  C9. Whenever dispatching a connectivity event produces anything, what is produced,
  once to each producer of the topic, is the record that \<^verbatim>\<open>telemetry.NewRecord\<close> makes
  of the bytes of a \<^verbatim>\<open>StreamMessage\<close> with topic \<^verbatim>\<open>connectivity\<close> and device type
  \<^verbatim>\<open>vehicle_device\<close>, with the sender id and the device id of the connection's identity,
  and with the payload that \<^verbatim>\<open>proto.Marshal\<close> returns for the \<^verbatim>\<open>VehicleConnectivity\<close>
  message carrying the device id as vin, the Socket Manager's UUID as connection id,
  its network interface, the creation time and the status, CONNECTED or DISCONNECTED.
\<close>

theorem connectivity_envelope:
  assumes "dispatchConnectivityEvent L s now sm ser event w = (out, w')"
    and "trace w' \<noteq> trace w"
  shows "\<exists>ident dispatchers payload m message rcd.
           requestIdentity sm = Some ident \<and>
           DispatchRules s ''connectivity'' = Some dispatchers \<and>
           proto_Marshal L \<lparr>Vin = DeviceID ident, ConnectionId = UUID sm,
                             NetworkInterface = GetNetworkInterface sm,
                             CreatedAt = now, Status = event\<rparr> = Inr payload \<and>
           (event = ConnectivityEvent_CONNECTED \<or> event = ConnectivityEvent_DISCONNECTED) \<and>
           MessageTopic m = ''connectivity'' \<and> DeviceType m = ''vehicle_device'' \<and>
           Payload m = payload \<and>
           SenderID_bytes m = SenderID ident \<and> DeviceID_bytes m = DeviceID ident \<and>
           ToBytes L m = Inr message \<and>
           NewRecord L ser message (UUID sm) (transmitDecodedRecords sm) = Inr rcd \<and>
           out = Returned None \<and>
           trace w' = trace w @ map (\<lambda>d. EvProduce d rcd) dispatchers"
proof -
  from assms obtain dispatchers where d: "DispatchRules s ''connectivity'' = Some dispatchers"
    by (cases "DispatchRules s ''connectivity''") (auto simp: dispatch_no_topic)
  from assms d obtain ident where i: "requestIdentity sm = Some ident"
    by (cases "requestIdentity sm")
       (auto simp: dispatchConnectivityEvent_def connectitivityTopic_def)
  from assms d i obtain rcd where
    r: "connectivityRecord L now sm ident ser event = Inr rcd"
    by (cases "connectivityRecord L now sm ident ser event")
       (auto simp: dispatchConnectivityEvent_def connectitivityTopic_def)
  from assms d i r have o: "out = Returned None"
    and t: "trace w' = trace w @ map (\<lambda>d. EvProduce d rcd) dispatchers"
    by (auto simp: dispatchConnectivityEvent_def connectitivityTopic_def)
  from r obtain payload message where
    p: "proto_Marshal L \<lparr>Vin = DeviceID ident, ConnectionId = UUID sm,
                          NetworkInterface = GetNetworkInterface sm,
                          CreatedAt = now, Status = event\<rparr> = Inr payload"
    and b: "ToBytes L \<lparr>TXID = UUID sm, SenderID_bytes = SenderID ident,
                       DeviceID_bytes = DeviceID ident, DeviceType = ''vehicle_device'',
                       MessageTopic = ''connectivity'', Payload = payload,
                       CreatedAt_unix = ucast (Seconds now)\<rparr> = Inr message"
    and n: "NewRecord L ser message (UUID sm) (transmitDecodedRecords sm) = Inr rcd"
    by (auto simp: connectivityRecord_def connectitivityTopic_def Let_def split: sum.splits)
  have e: "event = ConnectivityEvent_CONNECTED \<or> event = ConnectivityEvent_DISCONNECTED"
    by (cases event) simp_all
  show ?thesis
    using d i p b n o t e
    by (intro exI[of _ ident] exI[of _ dispatchers] exI[of _ payload]
        exI[of _ "\<lparr>TXID = UUID sm, SenderID_bytes = SenderID ident,
                       DeviceID_bytes = DeviceID ident, DeviceType = ''vehicle_device'',
                       MessageTopic = ''connectivity'', Payload = payload,
                       CreatedAt_unix = ucast (Seconds now)\<rparr>"]
        exI[of _ message] exI[of _ rcd]) simp
qed

lemma example_connected_record:
  "connectivityRecord example_libs (now_register env_upgraded) socket_vin123 identity_vin123
     serializer' ConnectivityEvent_CONNECTED =
   Inr \<lparr>Serializer = Some serializer', TxType = ''connectivity'', SocketID = ''uuid-1'',
        RawBytes = ''connectivity:VIN123,uuid-1,wifi,CONNECTED''\<rparr>"
  by (simp add: connectivityRecord_def example_libs_def socket_vin123_def identity_vin123_def
      GetNetworkInterface_def connectitivityTopic_def Let_def)

lemma example_dispatch_connected:
  "dispatchConnectivityEvent example_libs server_connectivity (now_register env_upgraded)
     socket_vin123 serializer_vin123 ConnectivityEvent_CONNECTED world_empty =
   (Returned None,
    \<lparr>registry = Map.empty,
     trace = [EvProduce (Producer ''logger'')
                \<lparr>Serializer = Some serializer_vin123, TxType = ''connectivity'',
                 SocketID = ''uuid-1'',
                 RawBytes = ''connectivity:VIN123,uuid-1,wifi,CONNECTED''\<rparr>]\<rparr>)"
  by (simp add: dispatchConnectivityEvent_def example_connected_record connectitivityTopic_def
      server_connectivity_def emit_def world_empty_def)
     (simp add: socket_vin123_def example_connected_record [unfolded socket_vin123_def])

theorem connectivity_envelope_witness:
  "\<exists>m message.
     dispatchConnectivityEvent example_libs server_connectivity (now_register env_upgraded)
       socket_vin123 serializer_vin123 ConnectivityEvent_CONNECTED world_empty =
     (Returned None,
      \<lparr>registry = Map.empty,
       trace = [EvProduce (Producer ''logger'')
                  \<lparr>Serializer = Some serializer_vin123, TxType = ''connectivity'',
                   SocketID = ''uuid-1'',
                   RawBytes = ''connectivity:VIN123,uuid-1,wifi,CONNECTED''\<rparr>]\<rparr>) \<and>
     MessageTopic m = ''connectivity'' \<and> DeviceType m = ''vehicle_device'' \<and>
     Payload m = ''VIN123,uuid-1,wifi,CONNECTED'' \<and>
     SenderID_bytes m = ''vehicle_device.VIN123'' \<and> DeviceID_bytes m = ''VIN123'' \<and>
     ToBytes example_libs m = Inr message"
proof -
  have "trace \<lparr>registry = Map.empty,
               trace = [EvProduce (Producer ''logger'')
                          \<lparr>Serializer = Some serializer_vin123, TxType = ''connectivity'',
                           SocketID = ''uuid-1'',
                           RawBytes = ''connectivity:VIN123,uuid-1,wifi,CONNECTED''\<rparr>]\<rparr>
          \<noteq> trace world_empty"
    by (simp add: world_empty_def)
  from connectivity_envelope [OF example_dispatch_connected this]
  obtain ident payload m message where
    i: "requestIdentity socket_vin123 = Some ident" and
    p: "proto_Marshal example_libs
          \<lparr>Vin = DeviceID ident, ConnectionId = UUID socket_vin123,
           NetworkInterface = GetNetworkInterface socket_vin123,
           CreatedAt = now_register env_upgraded,
           Status = ConnectivityEvent_CONNECTED\<rparr> = Inr payload" and
    m: "MessageTopic m = ''connectivity''" "DeviceType m = ''vehicle_device''"
       "Payload m = payload" "SenderID_bytes m = SenderID ident"
       "DeviceID_bytes m = DeviceID ident" "ToBytes example_libs m = Inr message"
    by blast
  from i have ident: "ident = identity_vin123"
    by (simp add: socket_vin123_def)
  from p have payload: "payload = ''VIN123,uuid-1,wifi,CONNECTED''"
    by (simp add: ident example_libs_def socket_vin123_def identity_vin123_def
        GetNetworkInterface_def)
  show ?thesis
    using example_dispatch_connected m
    by (intro exI[of _ m] exI[of _ message]) (simp add: ident payload identity_vin123_def)
qed

subsection \<open>The handler\<close>

lemma log_client_certificates_no_telemetry:
  "EvProcessTelemetry u \<notin> set (log_client_certificates r)"
  by (auto simp: log_client_certificates_def Let_def split: option.splits list.splits)

lemma dispatch_effect:
  assumes "dispatchConnectivityEvent L s now sm ser event w = (out, w')"
  shows "registry w' = registry w \<and>
         (\<exists>evs. trace w' = trace w @ evs \<and> (\<forall>u. EvProcessTelemetry u \<notin> set evs))"
  using assms
  by (auto simp: dispatchConnectivityEvent_def split: option.splits sum.splits)

lemma log_connectivity_error_effect:
  assumes "log_connectivity_error msg err sm event w = (out, w')"
  shows "registry w' = registry w \<and>
         (\<exists>evs. trace w' = trace w @ evs \<and> (\<forall>u. EvProcessTelemetry u \<notin> set evs))"
  using assms
  by (auto simp: log_connectivity_error_def split: option.splits)

lemma registerSocket_effect:
  assumes "registerSocket L s now sm ser w = (out, w')"
  shows "registry w' = (registry w)(UUID sm \<mapsto> sm) \<and>
         (\<exists>evs. trace w' = trace w @ EvRegisterSocket (UUID sm) # evs \<and>
                (\<forall>u. EvProcessTelemetry u \<notin> set evs))"
proof -
  obtain o1 w1 where d: "dispatchConnectivityEvent L s now sm ser ConnectivityEvent_CONNECTED
                            (RegisterSocket sm w) = (o1, w1)"
    by (cases "dispatchConnectivityEvent L s now sm ser ConnectivityEvent_CONNECTED
                 (RegisterSocket sm w)") blast
  from dispatch_effect[OF d] obtain evs where
    r1: "registry w1 = (registry w)(UUID sm \<mapsto> sm)" and
    t1: "trace w1 = trace w @ EvRegisterSocket (UUID sm) # evs" and
    n1: "\<forall>u. EvProcessTelemetry u \<notin> set evs"
    by (auto simp: RegisterSocket_def)
  show ?thesis
  proof (cases o1)
    case (Panicked p)
    with assms d r1 t1 n1 show ?thesis by (auto simp: registerSocket_def Let_def)
  next
    case (Returned e)
    show ?thesis
    proof (cases e)
      case None
      with Returned assms d r1 t1 n1 show ?thesis by (auto simp: registerSocket_def Let_def)
    next
      case (Some err)
      with Returned assms d have
        "log_connectivity_error ''connectivity_registeration_error'' err sm
           ConnectivityEvent_CONNECTED w1 = (out, w')"
        by (simp add: registerSocket_def Let_def)
      from log_connectivity_error_effect[OF this] r1 t1 n1 show ?thesis by auto
    qed
  qed
qed

lemma deregisterSocket_effect:
  assumes "deregisterSocket L s now sm ser w = (out, w')"
  shows "registry w' = (registry w)(UUID sm := None) \<and>
         (\<exists>evs. trace w' = trace w @ EvDeregisterSocket (UUID sm) # evs)"
proof -
  obtain o1 w1 where d: "dispatchConnectivityEvent L s now sm ser ConnectivityEvent_DISCONNECTED
                            (DeregisterSocket sm w) = (o1, w1)"
    by (cases "dispatchConnectivityEvent L s now sm ser ConnectivityEvent_DISCONNECTED
                 (DeregisterSocket sm w)") blast
  from dispatch_effect[OF d] obtain evs where
    r1: "registry w1 = (registry w)(UUID sm := None)" and
    t1: "trace w1 = trace w @ EvDeregisterSocket (UUID sm) # evs"
    by (auto simp: DeregisterSocket_def)
  show ?thesis
  proof (cases o1)
    case (Panicked p)
    with assms d r1 t1 show ?thesis by (auto simp: deregisterSocket_def Let_def)
  next
    case (Returned e)
    show ?thesis
    proof (cases e)
      case None
      with Returned assms d r1 t1 show ?thesis by (auto simp: deregisterSocket_def Let_def)
    next
      case (Some err)
      with Returned assms d have
        "log_connectivity_error ''connectivity_deregisteration_error'' err sm
           ConnectivityEvent_DISCONNECTED w1 = (out, w')"
        by (simp add: deregisterSocket_def Let_def)
      from log_connectivity_error_effect[OF this] r1 t1 show ?thesis by auto
    qed
  qed
qed

lemma promote_upgraded:
  "upgrade env = Upgraded ws \<Longrightarrow>
   promoteToWebsocket env w = (Some ws, emit [EvUpgrade (Upgraded ws)] w)"
  by (simp add: promoteToWebsocket_def Let_def)

text \<open>
  The lifecycle of an invocation whose read loop is reached. Take an invocation of the
  handler whose upgrade succeeds and that returns, or whose read loop was started.
  Then identity extraction returned; \<^verbatim>\<open>registerSocket\<close> ran and returned before the read
  loop started, and the registry held the Socket Manager then; \<^verbatim>\<open>deregisterSocket\<close>, with
  its dispatch of DISCONNECTED, ran after the read loop, whether the loop returned or
  panicked (\<open>read_loop env\<close> is either), and the handler ends in the state it leaves;
  the registry has no entry for the connection at the end. An invocation that panics
  before the read loop is not among these.
\<close>

lemma deregister_on_every_exit:
  assumes up: "upgrade env = Upgraded ws"
    and run: "ServeBinaryWs L s config env r w = (out, w')"
    and started: "out = Returned () \<or>
                  EvProcessTelemetry (new_UUID env) \<in> set (drop (length (trace w)) (trace w'))"
  shows "\<exists>ident err w2 w3 o5 pre mid post.
           extractIdentity L r config = Returned (ident, err) \<and>
           trace w2 = trace w @ pre \<and>
           registerSocket L s (now_register env) (NewSocketManager env ident)
             (NewBinarySerializer ident (DispatchRules s)) w2 = (Returned (), w3) \<and>
           trace w3 = trace w2 @ EvRegisterSocket (new_UUID env) # mid \<and>
           registry w3 (new_UUID env) = Some (NewSocketManager env ident) \<and>
           EvProcessTelemetry (new_UUID env) \<notin> set (pre @ mid) \<and>
           deregisterSocket L s (now_deregister env) (NewSocketManager env ident)
             (NewBinarySerializer ident (DispatchRules s))
             (emit [EvProcessTelemetry (new_UUID env)] w3) = (o5, w') \<and>
           trace w' = trace w3 @
             [EvProcessTelemetry (new_UUID env), EvDeregisterSocket (new_UUID env)] @ post \<and>
           registry w' (new_UUID env) = None \<and>
           (o5 = Returned () \<longrightarrow> out = read_loop env)"
proof -
  let ?u = "new_UUID env"
  let ?w1 = "emit [EvUpgrade (Upgraded ws)] (emit (log_client_certificates r) w)"
  show ?thesis
  proof (cases "extractIdentity L r config")
    case (Panicked p)
    with up run have "out = Panicked p" and "w' = ?w1"
      by (simp_all add: ServeBinaryWs_def promote_upgraded)
    with started show ?thesis
      by (simp add: log_client_certificates_no_telemetry)
  next
    case (Returned res)
    obtain ident err where res: "res = (ident, err)" by (cases res)
    define w2 where "w2 = (case err of
                            Some e \<Rightarrow> emit [EvErrorLog ''extract_sender_id_err'' e []] ?w1
                          | None \<Rightarrow> ?w1)"
    define ser where "ser = NewBinarySerializer ident (DispatchRules s)"
    define sm where "sm = NewSocketManager env ident"
    have u: "UUID sm = ?u" by (simp add: sm_def NewSocketManager_def)
    obtain pre where t2: "trace w2 = trace w @ pre" and
      n2: "EvProcessTelemetry ?u \<notin> set pre"
      by (cases err) (auto simp: w2_def log_client_certificates_no_telemetry)
    obtain o3 w3 where reg: "registerSocket L s (now_register env) sm ser w2 = (o3, w3)"
      by (cases "registerSocket L s (now_register env) sm ser w2") blast
    from registerSocket_effect[OF reg] u obtain mid where
      t3: "trace w3 = trace w2 @ EvRegisterSocket ?u # mid" and
      r3: "registry w3 ?u = Some sm" and
      n3: "\<forall>u. EvProcessTelemetry u \<notin> set mid"
      by auto
    show ?thesis
    proof (cases o3)
      case (Panicked p)
      with up run Returned res reg have "out = Panicked p" and "w' = w3"
        by (simp_all add: ServeBinaryWs_def promote_upgraded Let_def w2_def ser_def sm_def)
      with started t2 t3 n2 n3 show ?thesis by auto
    next
      case Returned': (Returned x)
      obtain o5 w5 where dereg:
        "deregisterSocket L s (now_deregister env) sm ser (emit [EvProcessTelemetry ?u] w3)
           = (o5, w5)"
        by (cases "deregisterSocket L s (now_deregister env) sm ser
                     (emit [EvProcessTelemetry ?u] w3)") blast
      from up run Returned res reg Returned' dereg u have w': "w' = w5"
        and out: "o5 = Returned () \<longrightarrow> out = read_loop env"
        by (auto simp add: ServeBinaryWs_def promote_upgraded Let_def w2_def ser_def sm_def
            split: outcome.splits)
      from deregisterSocket_effect[OF dereg] u obtain post where
        r5: "registry w5 ?u = None" and
        t5: "trace w5 = trace w3 @ [EvProcessTelemetry ?u, EvDeregisterSocket ?u] @ post"
        by auto
      from Returned res t2 reg Returned' t3 r3 n2 n3 dereg w' t5 r5 out
      show ?thesis
        unfolding sm_def ser_def
        by (intro exI[of _ ident] exI[of _ err] exI[of _ w2] exI[of _ w3] exI[of _ o5]
            exI[of _ pre] exI[of _ mid] exI[of _ post]) simp
    qed
  qed
qed

lemma example_disconnected_record:
  "connectivityRecord example_libs (now_deregister env_upgraded) socket_vin123 identity_vin123
     serializer' ConnectivityEvent_DISCONNECTED =
   Inr \<lparr>Serializer = Some serializer', TxType = ''connectivity'', SocketID = ''uuid-1'',
        RawBytes = ''connectivity:VIN123,uuid-1,wifi,DISCONNECTED''\<rparr>"
  by (simp add: connectivityRecord_def example_libs_def socket_vin123_def identity_vin123_def
      GetNetworkInterface_def connectitivityTopic_def Let_def)

lemma example_socket:
  "NewSocketManager env_upgraded (Some identity_vin123) = socket_vin123"
  "NewSocketManager env_loop_panics (Some identity_vin123) = socket_vin123"
  by (simp_all add: NewSocketManager_def env_upgraded_def env_loop_panics_def socket_vin123_def)

lemma example_env:
  "upgrade env_upgraded = Upgraded websocket_Conn"
  "upgrade env_loop_panics = Upgraded websocket_Conn"
  "new_UUID env_upgraded = ''uuid-1''"
  "new_UUID env_loop_panics = ''uuid-1''"
  "now_register env_loop_panics = now_register env_upgraded"
  "now_deregister env_loop_panics = now_deregister env_upgraded"
  "read_loop env_upgraded = Returned ()"
  "read_loop env_loop_panics = Panicked read_loop_panic"
  by (simp_all add: env_upgraded_def env_loop_panics_def)

lemma example_logs:
  "log_client_certificates request_two_certs =
     [EvLog ''client_certificate''
        [(''Subject'', LStr ''Issuing CA''), (''Issuer'', LStr ''Root CA''),
         (''NotBefore'', LStr ''2024-01-01 00:00:00 +0000 UTC''),
         (''NotAfter'', LStr ''2034-01-01 00:00:00 +0000 UTC'')],
      EvLog ''chains_size'' [(''chains_size'', LInt 0)]]"
  "log_client_certificates request_no_cert = [EvLog ''client_certificate_not_found'' []]"
  by (simp_all add: log_client_certificates_def request_two_certs_def request_no_cert_def
      cert_ca_def Let_def enumerate_eq_zip)

text \<open>
  The connectivity records of a connection with an identity. Let the upgrade succeed,
  the identity be extracted, the dispatch rules name the producers of the topic
  \<^verbatim>\<open>connectivity\<close>, and the records of the two events be built without error. Then the
  handler does exactly this: it logs the client certificates, upgrades, registers the
  socket, produces the CONNECTED record once to each of the producers, runs the read
  loop, deregisters the socket and produces the DISCONNECTED record once to each of
  the producers; and it ends as the read loop ended.
\<close>

lemma connectivity_once_each:
  assumes up: "upgrade env = Upgraded ws"
    and idn: "extractIdentity L r config = Returned (Some ident, None)"
    and rules: "DispatchRules s ''connectivity'' = Some dispatchers"
    and sm: "sm = NewSocketManager env (Some ident)"
    and ser: "ser = NewBinarySerializer (Some ident) (DispatchRules s)"
    and c: "connectivityRecord L (now_register env) sm ident ser ConnectivityEvent_CONNECTED
              = Inr connected"
    and d: "connectivityRecord L (now_deregister env) sm ident ser ConnectivityEvent_DISCONNECTED
              = Inr disconnected"
  shows "ServeBinaryWs L s config env r w =
           (read_loop env,
            w\<lparr>registry := (registry w)(new_UUID env := None),
              trace := trace w @ log_client_certificates r @
                [EvUpgrade (Upgraded ws), EvRegisterSocket (new_UUID env)] @
                map (\<lambda>p. EvProduce p connected) dispatchers @
                [EvProcessTelemetry (new_UUID env), EvDeregisterSocket (new_UUID env)] @
                map (\<lambda>p. EvProduce p disconnected) dispatchers\<rparr>)"
proof -
  have u: "UUID sm = new_UUID env" and i: "requestIdentity sm = Some ident"
    by (simp_all add: sm NewSocketManager_def)
  have reg: "registerSocket L s (now_register env) sm ser w0 =
               (Returned (), emit (EvRegisterSocket (new_UUID env) #
                                   map (\<lambda>p. EvProduce p connected) dispatchers)
                               (w0\<lparr>registry := (registry w0)(new_UUID env \<mapsto> sm)\<rparr>))" for w0
    using rules c u i
    by (simp add: registerSocket_def dispatchConnectivityEvent_def RegisterSocket_def
        connectitivityTopic_def Let_def emit_def)
  have dereg: "deregisterSocket L s (now_deregister env) sm ser w0 =
               (Returned (), emit (EvDeregisterSocket (new_UUID env) #
                                   map (\<lambda>p. EvProduce p disconnected) dispatchers)
                               (w0\<lparr>registry := (registry w0)(new_UUID env := None)\<rparr>))" for w0
    using rules d u i
    by (simp add: deregisterSocket_def dispatchConnectivityEvent_def DeregisterSocket_def
        connectitivityTopic_def Let_def emit_def)
  show ?thesis
    using up idn u
    by (simp add: ServeBinaryWs_def promote_upgraded Let_def sm[symmetric] ser[symmetric]
        reg dereg)
qed

lemma example_run_connected:
  "ServeBinaryWs example_libs server_connectivity config_direct env_upgraded request_two_certs
     world_empty =
   (Returned (),
    \<lparr>registry = Map.empty,
     trace =
       [EvLog ''client_certificate''
          [(''Subject'', LStr ''Issuing CA''), (''Issuer'', LStr ''Root CA''),
           (''NotBefore'', LStr ''2024-01-01 00:00:00 +0000 UTC''),
           (''NotAfter'', LStr ''2034-01-01 00:00:00 +0000 UTC'')],
        EvLog ''chains_size'' [(''chains_size'', LInt 0)],
        EvUpgrade (Upgraded websocket_Conn),
        EvRegisterSocket ''uuid-1'',
        EvProduce (Producer ''logger'')
          \<lparr>Serializer = Some (NewBinarySerializer (Some identity_vin123)
                                 (DispatchRules server_connectivity)),
           TxType = ''connectivity'', SocketID = ''uuid-1'',
           RawBytes = ''connectivity:VIN123,uuid-1,wifi,CONNECTED''\<rparr>,
        EvProcessTelemetry ''uuid-1'',
        EvDeregisterSocket ''uuid-1'',
        EvProduce (Producer ''logger'')
          \<lparr>Serializer = Some (NewBinarySerializer (Some identity_vin123)
                                 (DispatchRules server_connectivity)),
           TxType = ''connectivity'', SocketID = ''uuid-1'',
           RawBytes = ''connectivity:VIN123,uuid-1,wifi,DISCONNECTED''\<rparr>]\<rparr>)"
proof -
  have rules: "DispatchRules server_connectivity ''connectivity'' = Some [Producer ''logger'']"
    by (simp add: server_connectivity_def)
  show ?thesis
    using connectivity_once_each
            [OF example_env(1) example_identity_vin123 rules example_socket(1) [symmetric] refl
                example_connected_record example_disconnected_record, of world_empty]
    by (simp add: example_env example_logs world_empty_def)
qed

lemma example_run_loop_panics:
  "ServeBinaryWs example_libs server_connectivity config_direct env_loop_panics
     request_two_certs world_empty =
   (Panicked read_loop_panic,
    \<lparr>registry = Map.empty,
     trace =
       log_client_certificates request_two_certs @
       [EvUpgrade (Upgraded websocket_Conn),
        EvRegisterSocket ''uuid-1'',
        EvProduce (Producer ''logger'')
          \<lparr>Serializer = Some (NewBinarySerializer (Some identity_vin123)
                                 (DispatchRules server_connectivity)),
           TxType = ''connectivity'', SocketID = ''uuid-1'',
           RawBytes = ''connectivity:VIN123,uuid-1,wifi,CONNECTED''\<rparr>,
        EvProcessTelemetry ''uuid-1'',
        EvDeregisterSocket ''uuid-1'',
        EvProduce (Producer ''logger'')
          \<lparr>Serializer = Some (NewBinarySerializer (Some identity_vin123)
                                 (DispatchRules server_connectivity)),
           TxType = ''connectivity'', SocketID = ''uuid-1'',
           RawBytes = ''connectivity:VIN123,uuid-1,wifi,DISCONNECTED''\<rparr>]\<rparr>)"
proof -
  have rules: "DispatchRules server_connectivity ''connectivity'' = Some [Producer ''logger'']"
    by (simp add: server_connectivity_def)
  have i: "requestIdentity socket_vin123 = Some identity_vin123"
    and u: "UUID socket_vin123 = ''uuid-1''"
    by (simp_all add: socket_vin123_def)
  show ?thesis
    by (simp add: ServeBinaryWs_def promote_upgraded [OF example_env(2)]
        example_identity_vin123 Let_def registerSocket_def deregisterSocket_def
        dispatchConnectivityEvent_def connectitivityTopic_def rules i u
        example_connected_record example_disconnected_record
        RegisterSocket_def DeregisterSocket_def example_socket example_env emit_def
        world_empty_def)
qed




text \<open>
  What the handler does after a successful upgrade when identity extraction returns
  an error: the Socket Manager is made with a nil identity and registered. Without an
  entry for the topic the connection is served and deregistered. With an entry,
  dispatching CONNECTED dereferences the nil identity: the handler panics after the
  registry has taken the Socket Manager and before the deregistration is deferred.
\<close>

lemma identity_failure_run:
  assumes fail: "extractIdentity L r config = Returned (None, Some e)"
    and up: "upgrade env = Upgraded ws"
  shows "ServeBinaryWs L s config env r w =
           (case DispatchRules s ''connectivity'' of
              None \<Rightarrow>
                (read_loop env,
                 emit (log_client_certificates r @
                       [EvUpgrade (Upgraded ws), EvErrorLog ''extract_sender_id_err'' e [],
                        EvRegisterSocket (new_UUID env), EvProcessTelemetry (new_UUID env),
                        EvDeregisterSocket (new_UUID env)])
                   (w\<lparr>registry := (registry w)(new_UUID env := None)\<rparr>))
            | Some dispatchers \<Rightarrow>
                (Panicked nil_pointer_dereference,
                 emit (log_client_certificates r @
                       [EvUpgrade (Upgraded ws), EvErrorLog ''extract_sender_id_err'' e [],
                        EvRegisterSocket (new_UUID env)])
                   (w\<lparr>registry := (registry w)(new_UUID env \<mapsto> NewSocketManager env None)\<rparr>)))"
proof (cases "DispatchRules s ''connectivity''")
  case None
  then show ?thesis
    using fail
    by (simp add: ServeBinaryWs_def promote_upgraded [OF up] Let_def registerSocket_def
        deregisterSocket_def dispatch_no_topic RegisterSocket_def DeregisterSocket_def
        NewSocketManager_def emit_def)
next
  case (Some dispatchers)
  then show ?thesis
    using fail
    by (simp add: ServeBinaryWs_def promote_upgraded [OF up] Let_def registerSocket_def
        dispatchConnectivityEvent_def connectitivityTopic_def RegisterSocket_def
        NewSocketManager_def emit_def)
qed


lemma example_identity_no_cert:
  "extractIdentity example_libs request_no_cert config_direct =
     Returned (None, Some (GoError ''missing_certificate_error'' None))"
  by (simp add: extractIdentity_def extractCertFromTLS_def Let_def request_no_cert_def
      config_direct_def errors_New_def)

lemma example_run_identity_failure:
  "ServeBinaryWs example_libs server_connectivity config_direct env_upgraded
     request_no_cert world_empty =
   (Panicked nil_pointer_dereference,
    \<lparr>registry = [''uuid-1'' \<mapsto> NewSocketManager env_upgraded None],
     trace = [EvLog ''client_certificate_not_found'' [],
              EvUpgrade (Upgraded websocket_Conn),
              EvErrorLog ''extract_sender_id_err''
                (GoError ''missing_certificate_error'' None) [],
              EvRegisterSocket ''uuid-1'']\<rparr>)"
proof -
  have rules: "DispatchRules server_connectivity ''connectivity'' = Some [Producer ''logger'']"
    by (simp add: server_connectivity_def)
  show ?thesis
    by (simp add: identity_failure_run [OF example_identity_no_cert example_env(1)] rules
        example_env example_logs emit_def world_empty_def)
qed



text \<open>
  C7. Not every invocation whose upgrade succeeds deregisters its socket. A request
  without a client certificate, in direct TLS mode, to a server with dispatch rules
  for the topic \<^verbatim>\<open>connectivity\<close>: the upgrade succeeds, identity extraction fails and is
  logged, the registry takes the Socket Manager, and dispatching CONNECTED
  dereferences the nil identity. The handler panics inside \<^verbatim>\<open>registerSocket\<close>, before
  \<^verbatim>\<open>deregisterSocket\<close> is deferred: it is never run, and the registry keeps the entry of
  a connection whose handler is gone.
\<close>

theorem identity_failure_leaves_registry_entry:
  "upgrade env_upgraded = Upgraded websocket_Conn
   \<and> ServeBinaryWs example_libs server_connectivity config_direct env_upgraded
        request_no_cert world_empty =
       (Panicked nil_pointer_dereference,
        \<lparr>registry = [''uuid-1'' \<mapsto> NewSocketManager env_upgraded None],
         trace = [EvLog ''client_certificate_not_found'' [],
                  EvUpgrade (Upgraded websocket_Conn),
                  EvErrorLog ''extract_sender_id_err''
                    (GoError ''missing_certificate_error'' None) [],
                  EvRegisterSocket ''uuid-1'']\<rparr>)
   \<and> registry (snd (ServeBinaryWs example_libs server_connectivity config_direct env_upgraded
                      request_no_cert world_empty)) ''uuid-1'' =
       Some (NewSocketManager env_upgraded None)"
  by (simp add: example_run_identity_failure example_env)

text \<open>
  C3. Not every connection has its CONNECTED and its DISCONNECTED record. A request
  without a client certificate, in direct TLS mode, to a server whose dispatch rules
  name a producer for the topic \<^verbatim>\<open>connectivity\<close>: the upgrade succeeds, the socket is
  registered, and the handler panics on the nil identity while it builds the CONNECTED
  record. Nothing is handed to a producer, neither at register time nor later, since
  the read loop and \<^verbatim>\<open>deregisterSocket\<close> are never reached.
\<close>

theorem identity_failure_dispatches_nothing:
  "DispatchRules server_connectivity ''connectivity'' = Some [Producer ''logger'']
   \<and> fst (ServeBinaryWs example_libs server_connectivity config_direct env_upgraded
            request_no_cert world_empty) = Panicked nil_pointer_dereference
   \<and> produced (trace (snd (ServeBinaryWs example_libs server_connectivity config_direct
                             env_upgraded request_no_cert world_empty))) = []
   \<and> trace (snd (ServeBinaryWs example_libs server_connectivity config_direct
                   env_upgraded request_no_cert world_empty)) =
       [EvLog ''client_certificate_not_found'' [],
        EvUpgrade (Upgraded websocket_Conn),
        EvErrorLog ''extract_sender_id_err'' (GoError ''missing_certificate_error'' None) [],
        EvRegisterSocket ''uuid-1'']"
proof -
  have rules: "DispatchRules server_connectivity ''connectivity'' = Some [Producer ''logger'']"
    by (simp add: server_connectivity_def)
  show ?thesis
    by (simp add: example_run_identity_failure rules)
qed

end
